theory Spec2Isabelle
  imports Complex_Main
begin

section \<open>Billing metric pipeline: collector, snapshot store, formatter, delivery client\<close>

text \<open>
  A shallow embedding of \<^verbatim>\<open>scripts/collect_billing_data.py\<close> and
  \<^verbatim>\<open>scripts/push_to_prometheus.py\<close>.

  Conventions of the embedding:
  \<^item> A Python \<^verbatim>\<open>str\<close> is a \<open>string\<close>, one \<open>char\<close> per character.
  \<^item> A Python number is a \<open>pynum\<close>: an \<^verbatim>\<open>int\<close> or a \<^verbatim>\<open>float\<close>. A float is
    idealised as a real number: rounding, infinities and NaN are outside the model.
  \<^item> A Python \<^verbatim>\<open>dict\<close> iterates in insertion order, so a dict is an association list
    with unique keys, in insertion order.
  \<^item> Every effect is explicit: the functions that touch the network or the file system
    take a \<open>world\<close> and return the new one. Log messages are not part of the model.
  \<^item> Library functions whose text is not part of the repository and whose result no
    property depends on (how a number prints, \<^verbatim>\<open>urljoin\<close>) are parameters.
\<close>

subsection \<open>Strings\<close>

definition backslash :: char where
  "backslash = CHR 0x5C"

definition dquote :: char where
  "dquote = CHR 0x22"

definition newline :: char where
  "newline = CHR 0x0A"

text \<open>\<^verbatim>\<open>s.replace(old, new)\<close> for a one-character \<^verbatim>\<open>old\<close>.\<close>

definition str_replace :: "char \<Rightarrow> string \<Rightarrow> string \<Rightarrow> string" where
  "str_replace old new s = concat (map (\<lambda>c. if c = old then new else [c]) s)"

text \<open>\<^verbatim>\<open>sep.join(xs)\<close>.\<close>

fun join :: "string \<Rightarrow> string list \<Rightarrow> string" where
  "join sep [] = []"
| "join sep [x] = x"
| "join sep (x # y # ys) = x @ sep @ join sep (y # ys)"

text \<open>\<^verbatim>\<open>s.split(sep)\<close> for a one-character separator: never an empty list.\<close>

fun split :: "char \<Rightarrow> string \<Rightarrow> string list" where
  "split sep [] = [[]]"
| "split sep (c # cs) =
     (if c = sep then [] # split sep cs
      else (case split sep cs of [] \<Rightarrow> [[c]] | x # xs \<Rightarrow> (c # x) # xs))"

text \<open>\<^verbatim>\<open>s.startswith(c)\<close> for one character.\<close>

fun startswith :: "string \<Rightarrow> char \<Rightarrow> bool" where
  "startswith [] c = False"
| "startswith (d # ds) c = (d = c)"

text \<open>\<^verbatim>\<open>s.rstrip('/')\<close>.\<close>

definition rstrip :: "char \<Rightarrow> string \<Rightarrow> string" where
  "rstrip c s = rev (dropWhile (\<lambda>d. d = c) (rev s))"

subsection \<open>The metric model\<close>

datatype pynum = PyInt int | PyFloat real

text \<open>
  One record type serves both sides of the process boundary. The collector's dataclass
  \<^verbatim>\<open>BillingMetric\<close> is a \<open>datetime metric\<close>; the dict that \<^verbatim>\<open>asdict\<close> makes of it,
  with the timestamp replaced by its ISO text, is a \<open>string metric\<close>. The snapshot holds
  the dicts that \<^verbatim>\<open>save_metrics_to_file\<close> wrote, so each has all five keys and the
  defaults of \<^verbatim>\<open>.get('labels', {})\<close> and \<^verbatim>\<open>.get('help_text', '')\<close> are never taken.
\<close>

record 't metric =
  name :: string
  "value" :: pynum
  labels :: "(string \<times> string) list"
  timestamp :: 't
  help_text :: string

subsection \<open>\<^verbatim>\<open>PrometheusMetricFormatter\<close>\<close>

text \<open>The character classes of the two regular expressions.\<close>

definition alnum_chars :: string where
  "alnum_chars = ''abcdefghijklmnopqrstuvwxyzABCDEFGHIJKLMNOPQRSTUVWXYZ0123456789''"

definition metric_name_char :: "char \<Rightarrow> bool" where
  "metric_name_char c = (c \<in> set (alnum_chars @ ''_:''))"

definition label_name_char :: "char \<Rightarrow> bool" where
  "label_name_char c = (c \<in> set (alnum_chars @ ''_''))"

text \<open>\<^verbatim>\<open>re.sub(r'[^a-zA-Z0-9_:]', '_', name)\<close>\<close>

definition sanitize_metric_name :: "string \<Rightarrow> string" where
  "sanitize_metric_name nm = map (\<lambda>c. if metric_name_char c then c else CHR ''_'') nm"

text \<open>\<^verbatim>\<open>re.sub(r'[^a-zA-Z0-9_]', '_', name)\<close>\<close>

definition sanitize_label_name :: "string \<Rightarrow> string" where
  "sanitize_label_name nm = map (\<lambda>c. if label_name_char c then c else CHR ''_'') nm"

text \<open>\<^verbatim>\<open>str(value).replace('\\', '\\\\').replace('"', '\\"')\<close>: label values are strings.\<close>

definition sanitize_label_value :: "string \<Rightarrow> string" where
  "sanitize_label_value v =
     str_replace dquote [backslash, dquote] (str_replace backslash [backslash, backslash] v)"

text \<open>
  \<^verbatim>\<open>format_metric_for_pushgateway\<close>. The parameter \<open>fmt\<close> is how an f-string prints the
  value (\<^verbatim>\<open>str\<close> of an int or a float).
\<close>

definition format_metric_for_pushgateway :: "(pynum \<Rightarrow> string) \<Rightarrow> 't metric \<Rightarrow> string" where
  "format_metric_for_pushgateway fmt metric_data =
     (let nm = sanitize_metric_name (name metric_data);
          label_pairs = map (\<lambda>(label_name, label_value).
              sanitize_label_name label_name @ [CHR ''='', dquote]
                @ sanitize_label_value label_value @ [dquote]) (labels metric_data);
          labels_str = join '','' label_pairs;
          labels_str = (if labels_str \<noteq> [] then ''{'' @ labels_str @ ''}'' else labels_str);
          lines = (if help_text metric_data \<noteq> []
                   then [''# HELP '' @ nm @ '' '' @ help_text metric_data,
                         ''# TYPE '' @ nm @ '' gauge'']
                   else [])
                  @ [nm @ labels_str @ '' '' @ fmt (value metric_data)]
      in join [newline] lines)"

subsection \<open>The world of the delivery stage\<close>

datatype http_request =
    Post string string string  \<comment> \<open>URL, body, content type\<close>
  | Delete string
  | Get string

datatype http_outcome =
    Response nat  \<comment> \<open>the status code of the response\<close>
  | Timeout
  | ConnectionError
  | OtherError

datatype 't file_content =
    Snapshot "'t metric list"  \<comment> \<open>text that \<^verbatim>\<open>json.load\<close> reads as these records\<close>
  | InvalidJSON                \<comment> \<open>text on which \<^verbatim>\<open>json.load\<close> raises JSONDecodeError\<close>
  | Unreadable                 \<comment> \<open>a file whose reading raises another exception\<close>

record summary =
  s_timestamp :: string
  total_metrics :: nat
  s_pushgateway_url :: string
  s_job_name :: string
  s_instance_name :: string
  status :: string

text \<open>
  \<open>http_log\<close> is every request issued so far with its outcome, oldest first;
  \<open>sleeps\<close> counts the calls of \<^verbatim>\<open>time.sleep\<close>; \<open>files\<close> maps a path to the content of
  the metrics file stored there (no entry: no such file); \<open>push_summary\<close> is the content
  of \<^verbatim>\<open>data/push_summary.json\<close>; \<open>unwritable\<close> are the paths at which creating a
  directory or opening a file for writing raises \<^verbatim>\<open>OSError\<close>.
\<close>

record world =
  http_log :: "(http_request \<times> http_outcome) list"
  sleeps :: nat
  files :: "string \<rightharpoonup> string file_content"
  push_summary :: "summary option"
  unwritable :: "string set"

text \<open>
  The network answers a request given everything that was requested before. This is the
  \<^verbatim>\<open>requests.Session\<close> the pusher holds.
\<close>

type_synonym session = "(http_request \<times> http_outcome) list \<Rightarrow> http_request \<Rightarrow> http_outcome"

definition request :: "session \<Rightarrow> http_request \<Rightarrow> world \<Rightarrow> http_outcome \<times> world" where
  "request net req w =
     (let out = net (http_log w) req
      in (out, w\<lparr>http_log := http_log w @ [(req, out)]\<rparr>))"

text \<open>
  What the process is given from outside: the network, the environment variables, the
  clock (\<open>now_isoformat\<close> is \<^verbatim>\<open>datetime.datetime.now().isoformat()\<close>), and the two
  library functions that stay parameters.
\<close>

record platform =
  network :: session
  getenv :: "string \<Rightarrow> string option"
  now_isoformat :: string
  str_of_num :: "pynum \<Rightarrow> string"
  urljoin :: "string \<Rightarrow> string \<Rightarrow> string"

text \<open>\<^verbatim>\<open>os.getenv(key, default)\<close>\<close>

definition os_getenv :: "platform \<Rightarrow> string \<Rightarrow> string \<Rightarrow> string" where
  "os_getenv pf key dflt = (case getenv pf key of None \<Rightarrow> dflt | Some v \<Rightarrow> v)"

subsection \<open>\<^verbatim>\<open>PrometheusPusher\<close>\<close>

record pusher =
  pushgateway_url :: string
  job_name :: string
  session :: session

text \<open>\<^verbatim>\<open>__init__\<close>\<close>

definition PrometheusPusher :: "platform \<Rightarrow> string \<Rightarrow> string \<Rightarrow> pusher" where
  "PrometheusPusher pf url job =
     \<lparr>pushgateway_url = rstrip CHR ''/'' url, job_name = job, session = network pf\<rparr>"

text \<open>
  The grouping loop of \<^verbatim>\<open>push_metrics\<close>: \<open>dict_append\<close> is one iteration on the dict
  \<^verbatim>\<open>grouped_metrics\<close>, a new key going to the end.
\<close>

fun dict_append :: "string \<Rightarrow> 'a \<Rightarrow> (string \<times> 'a list) list \<Rightarrow> (string \<times> 'a list) list" where
  "dict_append k v [] = [(k, [v])]"
| "dict_append k v ((k', vs) # d) =
     (if k = k' then (k', vs @ [v]) # d else (k', vs) # dict_append k v d)"

definition grouped_metrics :: "'t metric list \<Rightarrow> (string \<times> 't metric list) list" where
  "grouped_metrics metrics_data = foldl (\<lambda>d metric. dict_append (name metric) metric d) [] metrics_data"

text \<open>The lines one instance contributes: its own rendering without the comment lines.\<close>

definition instance_lines :: "(pynum \<Rightarrow> string) \<Rightarrow> 't metric \<Rightarrow> string list" where
  "instance_lines fmt metric =
     filter (\<lambda>line. \<not> startswith line CHR ''#'')
       (split newline (format_metric_for_pushgateway fmt metric))"

text \<open>The lines of one group: HELP and TYPE from the first instance, then every instance.\<close>

definition group_lines :: "(pynum \<Rightarrow> string) \<Rightarrow> string \<times> 't metric list \<Rightarrow> string list" where
  "group_lines fmt g =
     (case g of (metric_name, metrics_list) \<Rightarrow>
        (case metrics_list of
           [] \<Rightarrow> []
         | first_metric # _ \<Rightarrow>
             (if help_text first_metric \<noteq> []
              then [''# HELP '' @ metric_name @ '' '' @ help_text first_metric,
                    ''# TYPE '' @ metric_name @ '' gauge'']
              else []))
        @ concat (map (instance_lines fmt) metrics_list))"

definition formatted_metrics :: "(pynum \<Rightarrow> string) \<Rightarrow> 't metric list \<Rightarrow> string list" where
  "formatted_metrics fmt metrics_data = concat (map (group_lines fmt) (grouped_metrics metrics_data))"

definition metrics_payload :: "(pynum \<Rightarrow> string) \<Rightarrow> 't metric list \<Rightarrow> string" where
  "metrics_payload fmt metrics_data = join [newline] (formatted_metrics fmt metrics_data)"

text \<open>An argument \<^verbatim>\<open>instance\<close> that is \<^verbatim>\<open>None\<close> or empty is falsy.\<close>

definition push_url :: "pusher \<Rightarrow> string option \<Rightarrow> string" where
  "push_url p inst =
     join ''/'' ([pushgateway_url p, ''metrics'', ''job'', job_name p]
       @ (case inst of None \<Rightarrow> [] | Some i \<Rightarrow> if i \<noteq> [] then [''instance'', i] else []))"

text \<open>
  \<^verbatim>\<open>push_metrics\<close>. A timeout, a connection error and any other exception of the POST
  are caught and give \<^verbatim>\<open>False\<close>, as a status other than 200 does.
\<close>

definition push_request :: "platform \<Rightarrow> pusher \<Rightarrow> string metric list \<Rightarrow> string option \<Rightarrow> http_request" where
  "push_request pf p metrics_data inst =
     Post (push_url p inst) (metrics_payload (str_of_num pf) metrics_data)
       ''text/plain; version=0.0.4''"

definition push_metrics ::
  "platform \<Rightarrow> pusher \<Rightarrow> string metric list \<Rightarrow> string option \<Rightarrow> world \<Rightarrow> bool \<times> world" where
  "push_metrics pf p metrics_data inst w =
     (if metrics_data = [] then (True, w)
      else
        (case request (session p) (push_request pf p metrics_data inst) w of
           (Response status_code, w') \<Rightarrow> (status_code = 200, w')
         | (Timeout, w') \<Rightarrow> (False, w')
         | (ConnectionError, w') \<Rightarrow> (False, w')
         | (OtherError, w') \<Rightarrow> (False, w')))"

text \<open>
  The loop of \<^verbatim>\<open>push_metrics_individually\<close>, at index \<open>i\<close> with \<open>success_count\<close> so
  far. Neither \<^verbatim>\<open>push_metrics\<close> nor \<^verbatim>\<open>time.sleep\<close> raises, so the handler inside the
  loop is never entered.
\<close>

fun individual_loop ::
  "platform \<Rightarrow> pusher \<Rightarrow> string option \<Rightarrow> nat \<Rightarrow> string metric list \<Rightarrow> nat \<Rightarrow> world
    \<Rightarrow> nat \<times> world" where
  "individual_loop pf p inst i [] success_count w = (success_count, w)"
| "individual_loop pf p inst i (metric # rest) success_count w =
     (case push_metrics pf p [metric] inst w of
        (success, w1) \<Rightarrow>
          individual_loop pf p inst (i + 1) rest
            (if success then success_count + 1 else success_count)
            (if i > 0 \<and> i mod 10 = 0 then w1\<lparr>sleeps := sleeps w1 + 1\<rparr> else w1))"

definition push_metrics_individually ::
  "platform \<Rightarrow> pusher \<Rightarrow> string metric list \<Rightarrow> string option \<Rightarrow> world \<Rightarrow> bool \<times> world" where
  "push_metrics_individually pf p metrics_data inst w =
     (case individual_loop pf p inst 0 metrics_data 0 w of
        (success_count, w') \<Rightarrow> (success_count > 0, w'))"

text \<open>\<^verbatim>\<open>delete_metrics\<close>: status 202 is success; every exception gives \<^verbatim>\<open>False\<close>.\<close>

definition delete_metrics :: "pusher \<Rightarrow> string option \<Rightarrow> world \<Rightarrow> bool \<times> world" where
  "delete_metrics p inst w =
     (case request (session p) (Delete (push_url p inst)) w of
        (Response status_code, w') \<Rightarrow> (status_code = 202, w')
      | (Timeout, w') \<Rightarrow> (False, w')
      | (ConnectionError, w') \<Rightarrow> (False, w')
      | (OtherError, w') \<Rightarrow> (False, w'))"

text \<open>\<^verbatim>\<open>health_check\<close>: status 200 is healthy; every exception gives \<^verbatim>\<open>False\<close>.\<close>

definition health_request :: "platform \<Rightarrow> pusher \<Rightarrow> http_request" where
  "health_request pf p = Get (urljoin pf (pushgateway_url p) ''/-/healthy'')"

definition health_check :: "platform \<Rightarrow> pusher \<Rightarrow> world \<Rightarrow> bool \<times> world" where
  "health_check pf p w =
     (case request (session p) (health_request pf p) w of
        (Response status_code, w') \<Rightarrow> (status_code = 200, w')
      | (Timeout, w') \<Rightarrow> (False, w')
      | (ConnectionError, w') \<Rightarrow> (False, w')
      | (OtherError, w') \<Rightarrow> (False, w'))"

subsection \<open>Reading the snapshot and the delivery run\<close>

text \<open>
  \<^verbatim>\<open>load_metrics_from_file\<close>: a missing file, invalid JSON and any other exception are
  caught, and each gives the empty list.
\<close>

definition load_metrics_from_file :: "string \<Rightarrow> world \<Rightarrow> string metric list" where
  "load_metrics_from_file filename w =
     (case files w filename of
        None \<Rightarrow> []
      | Some InvalidJSON \<Rightarrow> []
      | Some Unreadable \<Rightarrow> []
      | Some (Snapshot metrics_data) \<Rightarrow> metrics_data)"

text \<open>
  \<^verbatim>\<open>main\<close> of \<^verbatim>\<open>push_to_prometheus.py\<close>. An \<^verbatim>\<open>OSError\<close> of \<^verbatim>\<open>os.makedirs\<close> or of writing the
  summary is caught by the handler around the whole body, which returns \<^verbatim>\<open>False\<close>.
\<close>

definition main :: "platform \<Rightarrow> world \<Rightarrow> bool \<times> world" where
  "main pf w =
     (if ''logs'' \<in> unwritable w then (False, w)
      else
        (let job = os_getenv pf ''PROMETHEUS_JOB_NAME'' ''aws-billing-collector'';
             instance_name = os_getenv pf ''PROMETHEUS_INSTANCE_NAME'' ''github-actions''
         in case getenv pf ''PROMETHEUS_PUSHGATEWAY_URL'' of
              None \<Rightarrow> (False, w)
            | Some url \<Rightarrow>
                if url = [] then (False, w)
                else
                  (let metrics_data = load_metrics_from_file ''data/billing_metrics.json'' w
                   in if metrics_data = [] then (False, w)
                      else
                        (let p = PrometheusPusher pf url job;
                             w1 = snd (health_check pf p w);
                             (success, w2) = push_metrics pf p metrics_data (Some instance_name) w1;
                             (success, w3) =
                               (if \<not> success
                                then push_metrics_individually pf p metrics_data (Some instance_name) w2
                                else (success, w2))
                         in if success
                            then (if ''data/push_summary.json'' \<in> unwritable w3 then (False, w3)
                                  else (True, w3\<lparr>push_summary := Some
                                     \<lparr>s_timestamp = now_isoformat pf,
                                      total_metrics = length metrics_data,
                                      s_pushgateway_url = url,
                                      s_job_name = job,
                                      s_instance_name = instance_name,
                                      status = ''success''\<rparr>\<rparr>))
                            else (False, w3)))))"

subsection \<open>The collector: what the provider returns\<close>

text \<open>
  A naive \<^verbatim>\<open>datetime\<close>, as \<^verbatim>\<open>datetime.datetime.now()\<close> returns it. Python keeps its
  fields in the ranges of \<open>valid_datetime\<close>.
\<close>

record datetime =
  year :: nat
  month :: nat
  day :: nat
  hour :: nat
  minute :: nat
  second :: nat
  microsecond :: nat

definition valid_datetime :: "datetime \<Rightarrow> bool" where
  "valid_datetime t =
     (1 \<le> year t \<and> year t \<le> 9999 \<and> 1 \<le> month t \<and> month t \<le> 12 \<and> 1 \<le> day t \<and> day t \<le> 31
      \<and> hour t < 24 \<and> minute t < 60 \<and> second t < 60 \<and> microsecond t < 1000000)"

datatype py_exception = ClientError | ValueError | ZeroDivisionError | OSError

text \<open>
  The responses, in the shape the code reads them. \<open>Amount\<close> is the provider's text of a
  number, which the code passes to \<^verbatim>\<open>float\<close>.
\<close>

record cost_amount =
  Amount :: string
  Unit :: string

record cost_group =
  Keys :: "string list"
  BlendedCost :: cost_amount
  UnblendedCost :: cost_amount

record result_by_time =
  Start :: string  \<comment> \<open>\<^verbatim>\<open>result['TimePeriod']['Start']\<close>\<close>
  Groups :: "cost_group list"

record budget =
  BudgetName :: string
  BudgetLimit :: string  \<comment> \<open>\<^verbatim>\<open>budget['BudgetLimit']['Amount']\<close>\<close>
  BudgetType :: "string option"

text \<open>
  An entry of the performance history: the \<^verbatim>\<open>Amount\<close> under \<^verbatim>\<open>ActualCost\<close> and under
  \<^verbatim>\<open>ForecastedCost\<close>, \<open>None\<close> where one of the two keys is absent.
\<close>

record performance =
  ActualCost :: "string option"
  ForecastedCost :: "string option"

text \<open>
  \<^verbatim>\<open>AWSBillingCollector\<close> with what it is given from outside: the clients (a call returns
  its response or raises), the clock, and \<^verbatim>\<open>float\<close> on a string (\<open>None\<close>: it raises
  \<^verbatim>\<open>ValueError\<close>). \<open>get_cost_and_usage\<close> takes \<^verbatim>\<open>days_back\<close>, which fixes the time period
  of the query; \<open>describe_budgets\<close> takes the account, and stands for creating the
  budgets client too; \<open>describe_budget_performance_history\<close> takes the account and the
  budget name, and returns the list under \<^verbatim>\<open>BudgetPerformanceHistory\<close> (empty when the
  key is absent).
\<close>

record collector =
  region :: string
  account_id :: string
  get_cost_and_usage :: "int \<Rightarrow> py_exception + result_by_time list"
  describe_budgets :: "string \<Rightarrow> py_exception + budget list"
  describe_budget_performance_history :: "string \<Rightarrow> string \<Rightarrow> py_exception + performance list"
  clock :: datetime
  py_float :: "string \<Rightarrow> real option"

subsection \<open>\<^verbatim>\<open>get_current_costs\<close>\<close>

text \<open>
  The loops append to the list \<^verbatim>\<open>metrics\<close>. An exception leaves the loops for the handler
  of the function, which logs it; the function then returns \<^verbatim>\<open>metrics\<close> as built so far.
  So each loop returns the list together with the exception that ended it, if any.
\<close>

fun groups_loop ::
  "collector \<Rightarrow> string \<Rightarrow> cost_group list \<Rightarrow> datetime metric list
    \<Rightarrow> py_exception option \<times> datetime metric list" where
  "groups_loop c date [] metrics = (None, metrics)"
| "groups_loop c date (grp # rest) metrics =
     (let service = (case Keys grp of [] \<Rightarrow> ''Unknown'' | k # _ \<Rightarrow> k)
      in case py_float c (Amount (BlendedCost grp)) of
           None \<Rightarrow> (Some ValueError, metrics)
         | Some blended_cost \<Rightarrow>
             (let metrics1 =
                (if blended_cost > 0
                 then metrics @
                   [\<lparr>name = ''aws_billing_blended_cost_usd'',
                     value = PyFloat blended_cost,
                     labels = [(''service'', service), (''account_id'', account_id c),
                               (''date'', date), (''currency'', Unit (BlendedCost grp))],
                     timestamp = clock c,
                     help_text = ''AWS blended cost by service in USD''\<rparr>]
                 else metrics)
              in case py_float c (Amount (UnblendedCost grp)) of
                   None \<Rightarrow> (Some ValueError, metrics1)
                 | Some unblended_cost \<Rightarrow>
                     groups_loop c date rest
                       (if unblended_cost > 0
                        then metrics1 @
                          [\<lparr>name = ''aws_billing_unblended_cost_usd'',
                            value = PyFloat unblended_cost,
                            labels = [(''service'', service), (''account_id'', account_id c),
                                      (''date'', date), (''currency'', Unit (UnblendedCost grp))],
                            timestamp = clock c,
                            help_text = ''AWS unblended cost by service in USD''\<rparr>]
                        else metrics1)))"

fun results_loop ::
  "collector \<Rightarrow> result_by_time list \<Rightarrow> datetime metric list
    \<Rightarrow> py_exception option \<times> datetime metric list" where
  "results_loop c [] metrics = (None, metrics)"
| "results_loop c (result # rest) metrics =
     (case groups_loop c (Start result) (Groups result) metrics of
        (Some e, metrics') \<Rightarrow> (Some e, metrics')
      | (None, metrics') \<Rightarrow> results_loop c rest metrics')"

definition get_current_costs :: "collector \<Rightarrow> int \<Rightarrow> datetime metric list" where
  "get_current_costs c days_back =
     (case get_cost_and_usage c days_back of
        Inl e \<Rightarrow> []
      | Inr response \<Rightarrow> snd (results_loop c response []))"

subsection \<open>\<^verbatim>\<open>get_budget_metrics\<close>\<close>

text \<open>\<^verbatim>\<open>a / b\<close> on floats raises \<^verbatim>\<open>ZeroDivisionError\<close> when \<^verbatim>\<open>b\<close> is zero.\<close>

definition py_truediv :: "real \<Rightarrow> real \<Rightarrow> py_exception + real" where
  "py_truediv a b = (if b = 0 then Inl ZeroDivisionError else Inr (a / b))"

text \<open>
  \<^verbatim>\<open>(actual_spend / budget_limit * 100) if budget_limit > 0 else 0\<close>: the else branch is
  the int \<^verbatim>\<open>0\<close>.
\<close>

definition utilization :: "real \<Rightarrow> real \<Rightarrow> py_exception + pynum" where
  "utilization actual_spend budget_limit =
     (if budget_limit > 0
      then (case py_truediv actual_spend budget_limit of
              Inl e \<Rightarrow> Inl e
            | Inr q \<Rightarrow> Inr (PyFloat (q * 100)))
      else Inr (PyInt 0))"

text \<open>\<^verbatim>\<open>float(d.get(key, {}).get('Amount', 0))\<close>: \<^verbatim>\<open>float(0)\<close> is \<^verbatim>\<open>0.0\<close>.\<close>

definition float_or_zero :: "collector \<Rightarrow> string option \<Rightarrow> real option" where
  "float_or_zero c a = (case a of None \<Rightarrow> Some 0 | Some s \<Rightarrow> py_float c s)"

definition budget_labels :: "collector \<Rightarrow> budget \<Rightarrow> (string \<times> string) list" where
  "budget_labels c b =
     [(''budget_name'', BudgetName b), (''account_id'', account_id c),
      (''budget_type'', (case BudgetType b of None \<Rightarrow> ''COST'' | Some t \<Rightarrow> t))]"

fun budgets_loop ::
  "collector \<Rightarrow> budget list \<Rightarrow> datetime metric list \<Rightarrow> py_exception option \<times> datetime metric list" where
  "budgets_loop c [] metrics = (None, metrics)"
| "budgets_loop c (b # rest) metrics =
     (case py_float c (BudgetLimit b) of
        None \<Rightarrow> (Some ValueError, metrics)
      | Some budget_limit \<Rightarrow>
          (case describe_budget_performance_history c (account_id c) (BudgetName b) of
             Inl e \<Rightarrow> (Some e, metrics)
           | Inr history \<Rightarrow>
               if history = [] then budgets_loop c rest metrics
               else
                 (let latest_performance = last history
                  in case float_or_zero c (ActualCost latest_performance) of
                       None \<Rightarrow> (Some ValueError, metrics)
                     | Some actual_spend \<Rightarrow>
                         (case float_or_zero c (ForecastedCost latest_performance) of
                            None \<Rightarrow> (Some ValueError, metrics)
                          | Some forecasted_spend \<Rightarrow>
                              (let metrics3 = metrics @
                                 [\<lparr>name = ''aws_budget_limit_usd'',
                                   value = PyFloat budget_limit,
                                   labels = budget_labels c b,
                                   timestamp = clock c,
                                   help_text = ''AWS budget limit in USD''\<rparr>,
                                  \<lparr>name = ''aws_budget_actual_spend_usd'',
                                   value = PyFloat actual_spend,
                                   labels = budget_labels c b,
                                   timestamp = clock c,
                                   help_text = ''AWS budget actual spend in USD''\<rparr>,
                                  \<lparr>name = ''aws_budget_forecasted_spend_usd'',
                                   value = PyFloat forecasted_spend,
                                   labels = budget_labels c b,
                                   timestamp = clock c,
                                   help_text = ''AWS budget forecasted spend in USD''\<rparr>]
                               in case utilization actual_spend budget_limit of
                                    Inl e \<Rightarrow> (Some e, metrics3)
                                  | Inr u \<Rightarrow>
                                      budgets_loop c rest (metrics3 @
                                        [\<lparr>name = ''aws_budget_utilization_percentage'',
                                          value = u,
                                          labels = budget_labels c b,
                                          timestamp = clock c,
                                          help_text = ''AWS budget utilization as percentage''\<rparr>]))))))"

definition get_budget_metrics :: "collector \<Rightarrow> datetime metric list" where
  "get_budget_metrics c =
     (case describe_budgets c (account_id c) of
        Inl e \<Rightarrow> []
      | Inr budgets \<Rightarrow> snd (budgets_loop c budgets []))"

subsection \<open>\<^verbatim>\<open>save_metrics_to_file\<close>\<close>

text \<open>
  \<^verbatim>\<open>datetime.isoformat()\<close> of a naive datetime: \<^verbatim>\<open>YYYY-MM-DDTHH:MM:SS.ffffff\<close>, the fraction
  left out when the microsecond is 0. \<open>digits k n\<close> is \<open>n\<close> in \<open>k\<close> decimal digits, as
  \<^verbatim>\<open>%0kd\<close> prints a number below \<open>10 ^ k\<close>.
\<close>

definition digit_char :: "nat \<Rightarrow> char" where
  "digit_char d = char_of (48 + d)"

fun digits :: "nat \<Rightarrow> nat \<Rightarrow> string" where
  "digits 0 n = []"
| "digits (Suc k) n = digits k (n div 10) @ [digit_char (n mod 10)]"

definition isoformat :: "datetime \<Rightarrow> string" where
  "isoformat t =
     digits 4 (year t) @ ''-'' @ digits 2 (month t) @ ''-'' @ digits 2 (day t) @ ''T''
     @ digits 2 (hour t) @ '':'' @ digits 2 (minute t) @ '':'' @ digits 2 (second t)
     @ (if microsecond t \<noteq> 0 then ''.'' @ digits 6 (microsecond t) else [])"

text \<open>
  \<^verbatim>\<open>os.path.dirname\<close> on POSIX: the path up to its last slash, without trailing slashes
  unless it consists of slashes only.
\<close>

definition dirname :: "string \<Rightarrow> string" where
  "dirname path =
     (let head = rev (dropWhile (\<lambda>c. c \<noteq> CHR ''/'') (rev path))
      in if head \<noteq> [] \<and> \<not> list_all (\<lambda>c. c = CHR ''/'') head then rstrip CHR ''/'' head else head)"

text \<open>\<^verbatim>\<open>asdict(metric)\<close> with the timestamp replaced by its ISO text.\<close>

definition metric_dict :: "datetime metric \<Rightarrow> string metric" where
  "metric_dict metric =
     \<lparr>name = name metric, value = value metric, labels = labels metric,
      timestamp = isoformat (timestamp metric), help_text = help_text metric\<rparr>"

text \<open>
  \<^verbatim>\<open>save_metrics_to_file\<close>. \<^verbatim>\<open>os.makedirs\<close> raises on the empty path (a file name without a
  directory) and where the directory cannot be made; \<^verbatim>\<open>open\<close> raises where the file cannot
  be written. The handler logs the exception, and nothing is written. Otherwise
  \<^verbatim>\<open>json.dump\<close> writes text that \<^verbatim>\<open>json.load\<close> reads back as the same list of dicts.
\<close>

definition save_metrics_to_file :: "datetime metric list \<Rightarrow> string \<Rightarrow> world \<Rightarrow> world" where
  "save_metrics_to_file metrics filename w =
     (if dirname filename = [] \<or> dirname filename \<in> unwritable w then w
      else
        (let metrics_data = map metric_dict metrics
         in if filename \<in> unwritable w then w
            else w\<lparr>files := (files w)(filename \<mapsto> Snapshot metrics_data)\<rparr>))"

subsection \<open>Parsing the ISO text of a timestamp\<close>

text \<open>
  The parser of the layout that \<open>isoformat\<close> writes, as the readers of a snapshot apply
  it: fields of fixed width between the separators, the fraction optional.
\<close>

definition digit_value :: "char \<Rightarrow> nat option" where
  "digit_value c =
     (if 48 \<le> (of_char c :: nat) \<and> (of_char c :: nat) \<le> 57 then Some (of_char c - 48) else None)"

fun number :: "nat \<Rightarrow> string \<Rightarrow> nat option" where
  "number acc [] = Some acc"
| "number acc (c # cs) =
     (case digit_value c of None \<Rightarrow> None | Some d \<Rightarrow> number (10 * acc + d) cs)"

text \<open>\<open>field k s\<close> reads a number of \<open>k\<close> digits from the front of \<open>s\<close>.\<close>

definition field :: "nat \<Rightarrow> string \<Rightarrow> (nat \<times> string) option" where
  "field k s =
     (if length s < k then None
      else (case number 0 (take k s) of None \<Rightarrow> None | Some n \<Rightarrow> Some (n, drop k s)))"

text \<open>\<open>sep c s\<close> reads the separator \<open>c\<close> from the front of \<open>s\<close>.\<close>

fun sep :: "char \<Rightarrow> string \<Rightarrow> string option" where
  "sep c [] = None"
| "sep c (d # ds) = (if d = c then Some ds else None)"

definition fromisoformat :: "string \<Rightarrow> datetime option" where
  "fromisoformat s =
     Option.bind (field 4 s) (\<lambda>(y, s1).
     Option.bind (sep CHR ''-'' s1) (\<lambda>s2.
     Option.bind (field 2 s2) (\<lambda>(mo, s3).
     Option.bind (sep CHR ''-'' s3) (\<lambda>s4.
     Option.bind (field 2 s4) (\<lambda>(d, s5).
     Option.bind (sep CHR ''T'' s5) (\<lambda>s6.
     Option.bind (field 2 s6) (\<lambda>(h, s7).
     Option.bind (sep CHR '':'' s7) (\<lambda>s8.
     Option.bind (field 2 s8) (\<lambda>(mi, s9).
     Option.bind (sep CHR '':'' s9) (\<lambda>s10.
     Option.bind (field 2 s10) (\<lambda>(sec, s11).
       if s11 = []
       then Some \<lparr>year = y, month = mo, day = d, hour = h, minute = mi, second = sec,
                  microsecond = 0\<rparr>
       else
         Option.bind (sep CHR ''.'' s11) (\<lambda>s12.
         Option.bind (field 6 s12) (\<lambda>(us, s13).
           if s13 = []
           then Some \<lparr>year = y, month = mo, day = d, hour = h, minute = mi, second = sec,
                      microsecond = us\<rparr>
           else None)))))))))))))"

subsection \<open>Un-escaping a label value\<close>

text \<open>
  The un-escaping of the exposition format, read left to right: a backslash followed by a
  backslash or a double quote stands for that character, \<^verbatim>\<open>\n\<close> for a line feed.
\<close>

fun unescape :: "string \<Rightarrow> string" where
  "unescape [] = []"
| "unescape [c] = [c]"
| "unescape (c # d # cs) =
     (if c = backslash \<and> (d = backslash \<or> d = dquote) then d # unescape cs
      else if c = backslash \<and> d = CHR ''n'' then newline # unescape cs
      else c # unescape (d # cs))"

text \<open>What escaping does to one character.\<close>

definition escape_char :: "char \<Rightarrow> string" where
  "escape_char c = (if c = backslash \<or> c = dquote then [backslash, c] else [c])"

subsection \<open>Concrete inputs\<close>

text \<open>
  A platform whose gateway URL is configured, whose gateway is healthy, and whose network
  accepts only the third request of a run (after the health check and the batch push, the
  first individual push).
\<close>

definition flaky_network :: session where
  "flaky_network hist req =
     (case req of
        Get url \<Rightarrow> Response 200
      | Delete url \<Rightarrow> Response 202
      | Post url body ctype \<Rightarrow> (if length hist = 2 then Response 200 else Response 500))"

definition example_platform :: platform where
  "example_platform =
     \<lparr>network = flaky_network,
      getenv = (\<lambda>key. if key = ''PROMETHEUS_PUSHGATEWAY_URL'' then Some ''http://gw:9091/'' else None),
      now_isoformat = ''2024-05-01T12:00:00'',
      str_of_num = (\<lambda>v. case v of PyInt i \<Rightarrow> ''1'' | PyFloat r \<Rightarrow> ''1.5''),
      urljoin = (\<lambda>base url. ''http://gw:9091'' @ url)\<rparr>"

definition example_metric :: "string \<Rightarrow> string \<Rightarrow> string metric" where
  "example_metric nm help =
     \<lparr>name = nm, value = PyFloat 1.5, labels = [(''service'', ''ec2'')],
      timestamp = ''2024-05-01T12:00:00'', help_text = help\<rparr>"

definition example_metrics :: "string metric list" where
  "example_metrics = [example_metric ''cost_a'' ''help'', example_metric ''cost_b'' []]"

definition example_pusher :: pusher where
  "example_pusher = PrometheusPusher example_platform ''http://gw:9091/'' ''aws-billing-collector''"

definition world_with :: "(string \<rightharpoonup> string file_content) \<Rightarrow> world" where
  "world_with fs = \<lparr>http_log = [], sleeps = 0, files = fs, push_summary = None, unwritable = {}\<rparr>"

definition example_world :: world where
  "example_world = world_with [''data/billing_metrics.json'' \<mapsto> Snapshot example_metrics]"

text \<open>
  A collector whose provider returns two cost records for one day (a blended cost of 12.34
  and one of 0) and three budgets: one with limit 200 and 50 spent, one with limit 0, one
  with no performance history.
\<close>

definition example_float :: "string \<Rightarrow> real option" where
  "example_float s =
     (if s = ''12.34'' then Some 12.34
      else if s = ''0'' then Some 0
      else if s = ''-1'' then Some (- 1)
      else if s = ''50'' then Some 50
      else if s = ''200'' then Some 200
      else None)"

definition example_response :: "result_by_time list" where
  "example_response =
     [\<lparr>Start = ''2024-05-01'',
       Groups =
         [\<lparr>Keys = [''Amazon EC2''],
           BlendedCost = \<lparr>Amount = ''12.34'', Unit = ''USD''\<rparr>,
           UnblendedCost = \<lparr>Amount = ''12.34'', Unit = ''USD''\<rparr>\<rparr>,
          \<lparr>Keys = [],
           BlendedCost = \<lparr>Amount = ''0'', Unit = ''USD''\<rparr>,
           UnblendedCost = \<lparr>Amount = ''-1'', Unit = ''USD''\<rparr>\<rparr>]\<rparr>]"

definition example_budgets :: "budget list" where
  "example_budgets =
     [\<lparr>BudgetName = ''monthly'', BudgetLimit = ''200'', BudgetType = None\<rparr>,
      \<lparr>BudgetName = ''frozen'', BudgetLimit = ''0'', BudgetType = Some ''COST''\<rparr>,
      \<lparr>BudgetName = ''idle'', BudgetLimit = ''50'', BudgetType = None\<rparr>]"

definition example_history :: "budget \<Rightarrow> performance list" where
  "example_history b =
     (if BudgetName b = ''idle'' then []
      else [\<lparr>ActualCost = Some ''0'', ForecastedCost = Some ''0''\<rparr>,
            \<lparr>ActualCost = Some ''50'', ForecastedCost = None\<rparr>])"

definition example_now :: datetime where
  "example_now = \<lparr>year = 2024, month = 5, day = 1, hour = 12, minute = 0, second = 7,
     microsecond = 1500\<rparr>"

definition example_collector :: collector where
  "example_collector =
     \<lparr>region = ''us-east-1'',
      account_id = ''123456789012'',
      get_cost_and_usage = (\<lambda>days_back. Inr example_response),
      describe_budgets = (\<lambda>account. Inr example_budgets),
      describe_budget_performance_history =
        (\<lambda>account budget_name.
           Inr (example_history \<lparr>BudgetName = budget_name, BudgetLimit = [], BudgetType = None\<rparr>)),
      clock = example_now,
      py_float = example_float\<rparr>"

definition example_billing_metric :: "datetime metric" where
  "example_billing_metric =
     \<lparr>name = ''aws_budget_utilization_percentage'', value = PyInt 0,
      labels = [(''budget_name'', ''frozen''), (''account_id'', ''123456789012'')],
      timestamp = example_now, help_text = ''AWS budget utilization as percentage''\<rparr>"

section \<open>Properties\<close>

subsection \<open>Label values\<close>

lemma sanitize_label_value_concat:
  "sanitize_label_value v = concat (map escape_char v)"
  by (induction v)
    (simp_all add: sanitize_label_value_def str_replace_def escape_char_def
      backslash_def dquote_def)

lemma unescape_plain:
  "c \<noteq> backslash \<Longrightarrow> unescape (c # cs) = c # unescape cs"
  by (cases cs) simp_all

lemma unescape_escape:
  "unescape (concat (map escape_char v)) = v"
proof (induction v)
  case Nil
  show ?case by simp
next
  case (Cons c v)
  show ?case
  proof (cases "c = backslash \<or> c = dquote")
    case True
    then show ?thesis using Cons.IH by (auto simp: escape_char_def)
  next
    case False
    then show ?thesis using Cons.IH by (simp add: escape_char_def unescape_plain)
  qed
qed

text \<open>
  C8. For every label value, \<open>sanitize_label_value\<close> replaces each backslash by two
  backslashes and each double quote by backslash, double quote (the backslashes first, so
  the backslash that escapes a quote is not escaped again) and leaves every other character
  alone; un-escaping the result gives the value back.
\<close>

theorem sanitize_label_value_roundtrip:
  "sanitize_label_value v = concat (map escape_char v) \<and> unescape (sanitize_label_value v) = v"
  by (simp add: sanitize_label_value_concat unescape_escape)

subsection \<open>The collector\<close>

lemma groups_loop_blended:
  assumes parse: "\<forall>g\<in>set groups. py_float c (Amount (BlendedCost g)) = Some (blended g)
             \<and> py_float c (Amount (UnblendedCost g)) \<noteq> None"
    and emit: "\<And>g. emit g =
      (if blended g > 0
       then [\<lparr>name = ''aws_billing_blended_cost_usd'',
              value = PyFloat (blended g),
              labels = [(''service'', (case Keys g of [] \<Rightarrow> ''Unknown'' | k # _ \<Rightarrow> k)),
                        (''account_id'', account_id c),
                        (''date'', date),
                        (''currency'', Unit (BlendedCost g))],
              timestamp = clock c,
              help_text = ''AWS blended cost by service in USD''\<rparr>]
       else [])"
  shows "fst (groups_loop c date groups metrics) = None \<and>
         filter (\<lambda>m. name m = ''aws_billing_blended_cost_usd'') (snd (groups_loop c date groups metrics)) =
           filter (\<lambda>m. name m = ''aws_billing_blended_cost_usd'') metrics @ concat (map emit groups)"
  using parse
proof (induction groups arbitrary: metrics)
  case Nil
  show ?case by simp
next
  case (Cons g groups)
  obtain u where u: "py_float c (Amount (UnblendedCost g)) = Some u"
    using Cons.prems by auto
  have b: "py_float c (Amount (BlendedCost g)) = Some (blended g)"
    using Cons.prems by simp
  have rest: "\<forall>g\<in>set groups. py_float c (Amount (BlendedCost g)) = Some (blended g)
             \<and> py_float c (Amount (UnblendedCost g)) \<noteq> None"
    using Cons.prems by simp
  show ?case
    by (simp add: b u Let_def Cons.IH [OF rest] emit)
qed

lemma results_loop_blended:
  assumes parse: "\<forall>r\<in>set response. \<forall>g\<in>set (Groups r).
             py_float c (Amount (BlendedCost g)) = Some (blended g)
             \<and> py_float c (Amount (UnblendedCost g)) \<noteq> None"
    and emit: "\<And>date g. emit date g =
      (if blended g > 0
       then [\<lparr>name = ''aws_billing_blended_cost_usd'',
              value = PyFloat (blended g),
              labels = [(''service'', (case Keys g of [] \<Rightarrow> ''Unknown'' | k # _ \<Rightarrow> k)),
                        (''account_id'', account_id c),
                        (''date'', date),
                        (''currency'', Unit (BlendedCost g))],
              timestamp = clock c,
              help_text = ''AWS blended cost by service in USD''\<rparr>]
       else [])"
  shows "filter (\<lambda>m. name m = ''aws_billing_blended_cost_usd'') (snd (results_loop c response metrics)) =
           filter (\<lambda>m. name m = ''aws_billing_blended_cost_usd'') metrics
           @ concat (map (\<lambda>r. concat (map (emit (Start r)) (Groups r))) response)"
  using parse
proof (induction response arbitrary: metrics)
  case Nil
  show ?case by simp
next
  case (Cons r response)
  have here: "\<forall>g\<in>set (Groups r). py_float c (Amount (BlendedCost g)) = Some (blended g)
             \<and> py_float c (Amount (UnblendedCost g)) \<noteq> None"
    using Cons.prems by simp
  have rest: "\<forall>r\<in>set response. \<forall>g\<in>set (Groups r).
             py_float c (Amount (BlendedCost g)) = Some (blended g)
             \<and> py_float c (Amount (UnblendedCost g)) \<noteq> None"
    using Cons.prems by simp
  obtain e ms where loop: "groups_loop c (Start r) (Groups r) metrics = (e, ms)"
    by (cases "groups_loop c (Start r) (Groups r) metrics")
  from groups_loop_blended [where emit = "emit (Start r)" and metrics = metrics, OF here emit] loop
  have e: "e = None"
    and ms: "filter (\<lambda>m. name m = ''aws_billing_blended_cost_usd'') ms =
           filter (\<lambda>m. name m = ''aws_billing_blended_cost_usd'') metrics
           @ concat (map (emit (Start r)) (Groups r))"
    by simp_all
  show ?case
    by (simp add: loop e Cons.IH [OF rest] ms)
qed

text \<open>
  C5. Let the cost query succeed, and let every \<^verbatim>\<open>Amount\<close> it returns be the text of a
  number, \<open>blended g\<close> being the blended cost of the record \<open>g\<close>. Then the blended-cost
  metrics that \<open>get_current_costs\<close> returns are, record by record in the order of the
  response: no metric for a record whose blended cost is zero or negative, and exactly one
  for a record whose blended cost is positive, with that cost as its value and with exactly
  the labels \<^verbatim>\<open>service\<close>, \<^verbatim>\<open>account_id\<close>, \<^verbatim>\<open>date\<close> and \<^verbatim>\<open>currency\<close>.
\<close>

theorem blended_cost_metric_per_record:
  assumes "get_cost_and_usage c days_back = Inr response"
    and "\<forall>r\<in>set response. \<forall>g\<in>set (Groups r).
             py_float c (Amount (BlendedCost g)) = Some (blended g)
             \<and> py_float c (Amount (UnblendedCost g)) \<noteq> None"
  shows "filter (\<lambda>m. name m = ''aws_billing_blended_cost_usd'') (get_current_costs c days_back) =
     concat (map (\<lambda>r. concat (map (\<lambda>g.
         if blended g > 0
         then [\<lparr>name = ''aws_billing_blended_cost_usd'',
                value = PyFloat (blended g),
                labels = [(''service'', (case Keys g of [] \<Rightarrow> ''Unknown'' | k # _ \<Rightarrow> k)),
                          (''account_id'', account_id c),
                          (''date'', Start r),
                          (''currency'', Unit (BlendedCost g))],
                timestamp = clock c,
                help_text = ''AWS blended cost by service in USD''\<rparr>]
         else []) (Groups r))) response)"
proof -
  define emit where "emit = (\<lambda>date g.
      if blended g > 0
      then [\<lparr>name = ''aws_billing_blended_cost_usd'',
             value = PyFloat (blended g),
             labels = [(''service'', (case Keys g of [] \<Rightarrow> ''Unknown'' | k # _ \<Rightarrow> k)),
                       (''account_id'', account_id c),
                       (''date'', date),
                       (''currency'', Unit (BlendedCost g))],
             timestamp = clock c,
             help_text = ''AWS blended cost by service in USD''\<rparr>]
      else [])"
  have "filter (\<lambda>m. name m = ''aws_billing_blended_cost_usd'') (snd (results_loop c response [])) =
      filter (\<lambda>m. name m = ''aws_billing_blended_cost_usd'') []
      @ concat (map (\<lambda>r. concat (map (emit (Start r)) (Groups r))) response)"
    by (rule results_loop_blended [OF assms(2)]) (simp add: emit_def)
  then show ?thesis
    using assms(1) by (simp add: get_current_costs_def emit_def)
qed

theorem blended_cost_metric_per_record_witness:
  "filter (\<lambda>m. name m = ''aws_billing_blended_cost_usd'') (get_current_costs example_collector 2) =
     [\<lparr>name = ''aws_billing_blended_cost_usd'',
       value = PyFloat 12.34,
       labels = [(''service'', ''Amazon EC2''), (''account_id'', ''123456789012''),
                 (''date'', ''2024-05-01''), (''currency'', ''USD'')],
       timestamp = example_now,
       help_text = ''AWS blended cost by service in USD''\<rparr>]"
proof -
  have api: "get_cost_and_usage example_collector 2 = Inr example_response"
    by (simp add: example_collector_def)
  have parse: "\<forall>r\<in>set example_response. \<forall>g\<in>set (Groups r).
      py_float example_collector (Amount (BlendedCost g)) =
        Some (if Amount (BlendedCost g) = ''12.34'' then 12.34 else 0)
      \<and> py_float example_collector (Amount (UnblendedCost g)) \<noteq> None"
    by (simp add: example_collector_def example_response_def example_float_def del: not_None_eq)
  show ?thesis
    unfolding blended_cost_metric_per_record [OF api parse]
    by (simp add: example_collector_def example_response_def)
qed

lemma utilization_total:
  "utilization actual_spend budget_limit =
     Inr (if budget_limit > 0 then PyFloat (actual_spend / budget_limit * 100) else PyInt 0)"
  by (simp add: utilization_def py_truediv_def)

lemma budgets_loop_utilization:
  assumes "\<forall>b\<in>set budgets.
        py_float c (BudgetLimit b) = Some (limit b)
        \<and> describe_budget_performance_history c (account_id c) (BudgetName b) = Inr (history b)
        \<and> (history b \<noteq> [] \<longrightarrow>
              float_or_zero c (ActualCost (last (history b))) = Some (actual b)
              \<and> float_or_zero c (ForecastedCost (last (history b))) \<noteq> None)"
  shows "fst (budgets_loop c budgets metrics) = None \<and>
     map (\<lambda>m. (labels m, value m))
        (filter (\<lambda>m. name m = ''aws_budget_utilization_percentage'') (snd (budgets_loop c budgets metrics))) =
     map (\<lambda>m. (labels m, value m))
        (filter (\<lambda>m. name m = ''aws_budget_utilization_percentage'') metrics)
     @ map (\<lambda>b. (budget_labels c b,
                  if limit b > 0 then PyFloat (actual b / limit b * 100) else PyInt 0))
         (filter (\<lambda>b. history b \<noteq> []) budgets)"
  using assms
proof (induction budgets arbitrary: metrics)
  case Nil
  show ?case by simp
next
  case (Cons b budgets)
  have lim: "py_float c (BudgetLimit b) = Some (limit b)"
    and hist: "describe_budget_performance_history c (account_id c) (BudgetName b) = Inr (history b)"
    using Cons.prems by simp_all
  have rest: "\<forall>b\<in>set budgets.
        py_float c (BudgetLimit b) = Some (limit b)
        \<and> describe_budget_performance_history c (account_id c) (BudgetName b) = Inr (history b)
        \<and> (history b \<noteq> [] \<longrightarrow>
              float_or_zero c (ActualCost (last (history b))) = Some (actual b)
              \<and> float_or_zero c (ForecastedCost (last (history b))) \<noteq> None)"
    using Cons.prems by simp
  show ?case
  proof (cases "history b = []")
    case True
    then show ?thesis
      by (simp add: lim hist Cons.IH [OF rest])
  next
    case False
    then have act: "float_or_zero c (ActualCost (last (history b))) = Some (actual b)"
      using Cons.prems by simp
    from False obtain f where fc: "float_or_zero c (ForecastedCost (last (history b))) = Some f"
      using Cons.prems by auto
    show ?thesis
      using False by (simp add: lim hist act fc Let_def utilization_total Cons.IH [OF rest])
  qed
qed

text \<open>
  C6. Let the budget queries succeed, and let every \<^verbatim>\<open>Amount\<close> they return be the text of
  a number: \<open>limit b\<close> the limit of the budget \<open>b\<close>, \<open>history b\<close> its performance history,
  \<open>actual b\<close> the actual spend of the latest entry. Then no exception ends the loop (so no
  \<^verbatim>\<open>ZeroDivisionError\<close>: the division is evaluated for a positive limit only), and the
  utilization metrics that \<open>get_budget_metrics\<close> returns are one for each budget with a
  performance entry, in order, with the value \<open>actual / limit * 100\<close> when the limit is
  positive and \<open>0\<close> when it is zero or negative.
\<close>

theorem budget_utilization_value:
  assumes "describe_budgets c (account_id c) = Inr budgets"
    and "\<forall>b\<in>set budgets.
        py_float c (BudgetLimit b) = Some (limit b)
        \<and> describe_budget_performance_history c (account_id c) (BudgetName b) = Inr (history b)
        \<and> (history b \<noteq> [] \<longrightarrow>
              float_or_zero c (ActualCost (last (history b))) = Some (actual b)
              \<and> float_or_zero c (ForecastedCost (last (history b))) \<noteq> None)"
  shows "fst (budgets_loop c budgets []) = None \<and>
     map (\<lambda>m. (labels m, value m))
        (filter (\<lambda>m. name m = ''aws_budget_utilization_percentage'') (get_budget_metrics c)) =
     map (\<lambda>b. (budget_labels c b,
                if limit b > 0 then PyFloat (actual b / limit b * 100) else PyInt 0))
       (filter (\<lambda>b. history b \<noteq> []) budgets)"
  using budgets_loop_utilization [where metrics = "[]", OF assms(2)] assms(1)
  by (simp add: get_budget_metrics_def)

theorem budget_utilization_value_witness:
  "fst (budgets_loop example_collector example_budgets []) = None \<and>
   map (\<lambda>m. (labels m, value m))
      (filter (\<lambda>m. name m = ''aws_budget_utilization_percentage'')
         (get_budget_metrics example_collector)) =
     [([(''budget_name'', ''monthly''), (''account_id'', ''123456789012''), (''budget_type'', ''COST'')],
       PyFloat 25),
      ([(''budget_name'', ''frozen''), (''account_id'', ''123456789012''), (''budget_type'', ''COST'')],
       PyInt 0)]"
proof -
  have api: "describe_budgets example_collector (account_id example_collector) = Inr example_budgets"
    by (simp add: example_collector_def)
  have parse: "\<forall>b\<in>set example_budgets.
        py_float example_collector (BudgetLimit b) =
          Some (if BudgetName b = ''monthly'' then 200 else if BudgetName b = ''frozen'' then 0 else 50)
        \<and> describe_budget_performance_history example_collector (account_id example_collector)
            (BudgetName b) = Inr (example_history b)
        \<and> (example_history b \<noteq> [] \<longrightarrow>
              float_or_zero example_collector (ActualCost (last (example_history b))) = Some 50
              \<and> float_or_zero example_collector (ForecastedCost (last (example_history b))) \<noteq> None)"
    by (simp add: example_collector_def example_budgets_def example_history_def example_float_def
        float_or_zero_def del: not_None_eq)
  show ?thesis
    using budget_utilization_value [OF api parse]
    by (simp add: example_budgets_def example_history_def budget_labels_def example_collector_def)
qed

subsection \<open>The snapshot store\<close>

lemma digit_value_digit_char: "d < 10 \<Longrightarrow> digit_value (digit_char d) = Some d"
  by (simp add: digit_value_def digit_char_def)

lemma number_append:
  "number acc (xs @ ys) = Option.bind (number acc xs) (\<lambda>a. number a ys)"
  by (induction xs arbitrary: acc) (auto split: option.splits)

lemma number_digits: "n < 10 ^ k \<Longrightarrow> number acc (digits k n) = Some (acc * 10 ^ k + n)"
proof (induction k arbitrary: n)
  case 0
  then show ?case by simp
next
  case (Suc k)
  have "n div 10 < 10 ^ k"
    using Suc.prems by (simp add: less_mult_imp_div_less mult.commute)
  then have "number acc (digits k (n div 10)) = Some (acc * 10 ^ k + n div 10)"
    by (rule Suc.IH)
  then show ?case
    by (simp add: number_append digit_value_digit_char algebra_simps)
qed

lemma length_digits: "length (digits k n) = k"
  by (induction k arbitrary: n) simp_all

lemma field_digits: "n < 10 ^ k \<Longrightarrow> field k (digits k n @ rest) = Some (n, rest)"
  by (simp add: field_def length_digits number_digits)

lemma fromisoformat_isoformat:
  assumes "valid_datetime t"
  shows "fromisoformat (isoformat t) = Some t"
proof -
  have y: "year t < 10 ^ 4" and mo: "month t < 10 ^ 2" and d: "day t < 10 ^ 2"
    and h: "hour t < 10 ^ 2" and mi: "minute t < 10 ^ 2" and s: "second t < 10 ^ 2"
    and us: "microsecond t < 10 ^ 6"
    using assms by (simp_all add: valid_datetime_def)
  have last_field: "field 2 (digits 2 (second t)) = Some (second t, [])"
    using field_digits [OF s, of "[]"] by simp
  have frac: "field 6 (digits 6 (microsecond t)) = Some (microsecond t, [])"
    using field_digits [OF us, of "[]"] by simp
  have nonempty: "CHR ''.'' # digits 6 (microsecond t) \<noteq> []"
    by simp
  show ?thesis
  proof (cases "microsecond t = 0")
    case True
    have "isoformat t =
        digits 4 (year t) @ CHR ''-'' # digits 2 (month t) @ CHR ''-'' # digits 2 (day t) @ CHR ''T''
          # digits 2 (hour t) @ CHR '':'' # digits 2 (minute t) @ CHR '':'' # digits 2 (second t)"
      by (simp only: isoformat_def True append_Cons append_Nil append_Nil2 append_assoc
          if_False simp_thms)
    then have "fromisoformat (isoformat t) =
        Some \<lparr>year = year t, month = month t, day = day t, hour = hour t, minute = minute t,
          second = second t, microsecond = 0\<rparr>"
      by (simp only: fromisoformat_def field_digits [OF y] field_digits [OF mo]
          field_digits [OF d] field_digits [OF h] field_digits [OF mi] last_field
          Option.bind.simps prod.case sep.simps if_True simp_thms)
    then show ?thesis
      using True by simp
  next
    case False
    have "isoformat t =
        digits 4 (year t) @ CHR ''-'' # digits 2 (month t) @ CHR ''-'' # digits 2 (day t) @ CHR ''T''
          # digits 2 (hour t) @ CHR '':'' # digits 2 (minute t) @ CHR '':'' # digits 2 (second t)
          @ CHR ''.'' # digits 6 (microsecond t)"
      by (simp only: isoformat_def False append_Cons append_Nil append_Nil2 append_assoc
          if_True simp_thms)
    then have "fromisoformat (isoformat t) =
        Some \<lparr>year = year t, month = month t, day = day t, hour = hour t, minute = minute t,
          second = second t, microsecond = microsecond t\<rparr>"
      using nonempty
      by (simp only: fromisoformat_def field_digits [OF y] field_digits [OF mo]
          field_digits [OF d] field_digits [OF h] field_digits [OF mi] field_digits [OF s] frac
          Option.bind.simps prod.case sep.simps if_True if_False simp_thms)
    then show ?thesis
      by simp
  qed
qed

lemma load_after_save:
  assumes "dirname filename \<noteq> []" and "dirname filename \<notin> unwritable w"
    and "filename \<notin> unwritable w"
  shows "load_metrics_from_file filename (save_metrics_to_file metrics filename w) =
     map metric_dict metrics"
  using assms by (simp add: save_metrics_to_file_def load_metrics_from_file_def)

text \<open>
  C7. Let the file name have a directory part, let the directory and the file be
  writable, and let every timestamp be a datetime as Python keeps it (\<open>valid_datetime\<close>).
  Then the sequence that \<open>load_metrics_from_file\<close> reads after
  \<open>save_metrics_to_file\<close> has written \<open>metrics\<close> has the names, the values, the labels and
  the help texts of \<open>metrics\<close>, in the same order, and parsing the timestamp of each
  record gives the timestamp of the original.
\<close>

theorem snapshot_roundtrip:
  assumes "dirname filename \<noteq> []" and "dirname filename \<notin> unwritable w"
    and "filename \<notin> unwritable w"
    and "\<forall>m\<in>set metrics. valid_datetime (timestamp m)"
    and "loaded = load_metrics_from_file filename (save_metrics_to_file metrics filename w)"
  shows "map name loaded = map name metrics
       \<and> map value loaded = map value metrics
       \<and> map labels loaded = map labels metrics
       \<and> map help_text loaded = map help_text metrics
       \<and> map (\<lambda>d. fromisoformat (timestamp d)) loaded = map (\<lambda>m. Some (timestamp m)) metrics"
proof -
  have loaded: "loaded = map metric_dict metrics"
    using assms(1-3,5) by (simp add: load_after_save)
  have "map (\<lambda>d. fromisoformat (timestamp d)) loaded = map (\<lambda>m. Some (timestamp m)) metrics"
    using assms(4) by (simp add: loaded metric_dict_def fromisoformat_isoformat)
  then show ?thesis
    by (simp add: loaded metric_dict_def comp_def)
qed

theorem snapshot_roundtrip_witness:
  "map name (load_metrics_from_file ''data/billing_metrics.json''
      (save_metrics_to_file [example_billing_metric] ''data/billing_metrics.json'' (world_with Map.empty)))
     = map name [example_billing_metric]
   \<and> map value (load_metrics_from_file ''data/billing_metrics.json''
      (save_metrics_to_file [example_billing_metric] ''data/billing_metrics.json'' (world_with Map.empty)))
     = map value [example_billing_metric]
   \<and> map labels (load_metrics_from_file ''data/billing_metrics.json''
      (save_metrics_to_file [example_billing_metric] ''data/billing_metrics.json'' (world_with Map.empty)))
     = map labels [example_billing_metric]
   \<and> map help_text (load_metrics_from_file ''data/billing_metrics.json''
      (save_metrics_to_file [example_billing_metric] ''data/billing_metrics.json'' (world_with Map.empty)))
     = map help_text [example_billing_metric]
   \<and> map (\<lambda>d. fromisoformat (timestamp d)) (load_metrics_from_file ''data/billing_metrics.json''
      (save_metrics_to_file [example_billing_metric] ''data/billing_metrics.json'' (world_with Map.empty)))
     = map (\<lambda>m. Some (timestamp m)) [example_billing_metric]"
proof (rule snapshot_roundtrip [where w = "world_with Map.empty"])
  show "dirname ''data/billing_metrics.json'' \<noteq> []"
    by (simp add: dirname_def rstrip_def)
  show "dirname ''data/billing_metrics.json'' \<notin> unwritable (world_with Map.empty)"
    and "''data/billing_metrics.json'' \<notin> unwritable (world_with Map.empty)"
    by (simp_all add: world_with_def)
  show "\<forall>m\<in>set [example_billing_metric]. valid_datetime (timestamp m)"
    by (simp add: example_billing_metric_def example_now_def valid_datetime_def)
qed (rule refl)

text \<open>A file name without a directory part is never written.\<close>

lemma save_without_directory:
  "save_metrics_to_file metrics ''metrics.json'' w = w"
  by (simp add: save_metrics_to_file_def dirname_def)

subsection \<open>The exposition body\<close>














lemmas formatter_defs =
  formatted_metrics_def grouped_metrics_def group_lines_def instance_lines_def
  format_metric_for_pushgateway_def example_metric_def example_platform_def
  sanitize_metric_name_def sanitize_label_name_def sanitize_label_value_def str_replace_def
  metric_name_char_def label_name_char_def alnum_chars_def newline_def dquote_def backslash_def



text \<open>
  Why the names must be free of spaces: the HELP line of the name \<^verbatim>\<open>a\<close> with help text
  \<^verbatim>\<open>b c\<close> is also the HELP line of the name \<^verbatim>\<open>a b\<close> with help text \<^verbatim>\<open>c\<close>, and then the
  line occurs twice.
\<close>

lemma help_line_twice_with_space:
  "count_list (formatted_metrics (str_of_num example_platform)
       [example_metric ''a'' ''b c'', example_metric ''a b'' ''c'']) ''# HELP a b c'' = 2"
  by (simp add: formatter_defs)

text \<open>
  C3 does not hold of the code. For the metric name \<^verbatim>\<open>aws.cost\<close>, whose sanitized form is
  \<^verbatim>\<open>aws_cost\<close>, the formatter's own rendering of one metric carries the sanitized name on
  its HELP, TYPE and data lines; \<open>push_metrics\<close> drops those two comment lines and writes
  its own from the key of the group, which is the name as given, so the body has
  \<^verbatim>\<open>aws.cost\<close> on the HELP and TYPE lines and \<^verbatim>\<open>aws_cost\<close> on the data line.
\<close>

theorem batch_help_line_keeps_raw_name:
  "sanitize_metric_name ''aws.cost'' = ''aws_cost'' \<and>
   split newline (format_metric_for_pushgateway (str_of_num example_platform)
       (example_metric ''aws.cost'' ''h'')) =
     [''# HELP aws_cost h'', ''# TYPE aws_cost gauge'',
      ''aws_cost{service='' @ [dquote] @ ''ec2'' @ [dquote] @ ''} 1.5''] \<and>
   formatted_metrics (str_of_num example_platform) [example_metric ''aws.cost'' ''h''] =
     [''# HELP aws.cost h'', ''# TYPE aws.cost gauge'',
      ''aws_cost{service='' @ [dquote] @ ''ec2'' @ [dquote] @ ''} 1.5'']"
  by (simp add: formatter_defs)

subsection \<open>The delivery run\<close>

lemma push_metrics_single:
  "push_metrics pf p [m] inst w =
     (net_ok, w') \<Longrightarrow> \<exists>out. w' = w\<lparr>http_log := http_log w @ [(push_request pf p [m] inst, out)]\<rparr> \<and> net_ok = (out = Response 200)"
  by (auto simp: push_metrics_def request_def Let_def split: http_outcome.splits prod.splits)

lemma individual_loop_log:
  "individual_loop pf p inst i ms cnt w = (cnt', w') \<Longrightarrow>
     \<exists>outs. length outs = length ms \<and>
        http_log w' = http_log w @ zip (map (\<lambda>m. push_request pf p [m] inst) ms) outs \<and>
        cnt' = cnt + length (filter (\<lambda>out. out = Response 200) outs) \<and>
        files w' = files w \<and> unwritable w' = unwritable w \<and> push_summary w' = push_summary w"
proof (induction ms arbitrary: i cnt w)
  case Nil
  then show ?case by simp
next
  case (Cons m ms)
  obtain ok w1 where step: "push_metrics pf p [m] inst w = (ok, w1)"
    by (cases "push_metrics pf p [m] inst w")
  from push_metrics_single [OF step] obtain out where
    w1: "w1 = w\<lparr>http_log := http_log w @ [(push_request pf p [m] inst, out)]\<rparr>"
    and ok: "ok = (out = Response 200)" by blast
  define w2 where "w2 = (if i > 0 \<and> i mod 10 = 0 then w1\<lparr>sleeps := sleeps w1 + 1\<rparr> else w1)"
  have rest: "individual_loop pf p inst (i + 1) ms (if ok then cnt + 1 else cnt) w2 = (cnt', w')"
    using Cons.prems step by (simp add: w2_def)
  from Cons.IH [OF rest] obtain outs where
    len: "length outs = length ms"
    and log: "http_log w' = http_log w2 @ zip (map (\<lambda>m. push_request pf p [m] inst) ms) outs"
    and cnt: "cnt' = (if ok then cnt + 1 else cnt) + length (filter (\<lambda>out. out = Response 200) outs)"
    and frame: "files w' = files w2" "unwritable w' = unwritable w2" "push_summary w' = push_summary w2"
    by blast
  have w2log: "http_log w2 = http_log w @ [(push_request pf p [m] inst, out)]"
    and w2frame: "files w2 = files w" "unwritable w2 = unwritable w" "push_summary w2 = push_summary w"
    by (simp_all add: w2_def w1)
  show ?case
    by (rule exI [of _ "out # outs"]) (simp add: len log cnt frame w2log w2frame ok)
qed

lemma health_check_world:
  "snd (health_check pf p w) =
     w\<lparr>http_log := http_log w @ [(health_request pf p, session p (http_log w) (health_request pf p))]\<rparr>"
  by (simp add: health_check_def request_def Let_def split: http_outcome.splits)

lemma push_metrics_nonempty:
  "metrics_data \<noteq> [] \<Longrightarrow>
   push_metrics pf p metrics_data inst w =
     (session p (http_log w) (push_request pf p metrics_data inst) = Response 200,
      w\<lparr>http_log := http_log w @ [(push_request pf p metrics_data inst,
          session p (http_log w) (push_request pf p metrics_data inst))]\<rparr>)"
  by (auto simp: push_metrics_def request_def Let_def split: http_outcome.splits)

lemma push_metrics_individually_log:
  "\<exists>outs. length outs = length ms \<and>
      http_log (snd (push_metrics_individually pf p ms inst w)) =
        http_log w @ zip (map (\<lambda>m. push_request pf p [m] inst) ms) outs \<and>
      fst (push_metrics_individually pf p ms inst w) = (Response 200 \<in> set outs) \<and>
      unwritable (snd (push_metrics_individually pf p ms inst w)) = unwritable w"
proof -
  obtain cnt w' where loop: "individual_loop pf p inst 0 ms 0 w = (cnt, w')"
    by (cases "individual_loop pf p inst 0 ms 0 w")
  from individual_loop_log [OF loop] obtain outs where
    len: "length outs = length ms"
    and log: "http_log w' = http_log w @ zip (map (\<lambda>m. push_request pf p [m] inst) ms) outs"
    and cnt: "cnt = 0 + length (filter (\<lambda>out. out = Response 200) outs)"
    and frame: "unwritable w' = unwritable w"
    by blast
  have "(0 < cnt) = (Response 200 \<in> set outs)"
    by (auto simp: cnt filter_empty_conv)
  then show ?thesis
    using len log frame by (auto simp: push_metrics_individually_def loop)
qed

text \<open>
  C4. Take a run of \<open>main\<close> with the gateway URL configured, a non-empty snapshot \<open>ms\<close>
  and a writable working directory, in which the batch POST does not get status 200 (another
  status, a timeout, a connection error or any other exception). Then the requests of the
  run are the health check, the batch POST and, after them, exactly one POST per metric of
  \<open>ms\<close>, each carrying that metric alone, in the order of \<open>ms\<close>; and \<open>main\<close> returns
  \<^verbatim>\<open>True\<close> if and only if one of these individual POSTs got status 200.
\<close>

theorem main_individual_fallback:
  assumes logs: "''logs'' \<notin> unwritable w"
    and summ: "''data/push_summary.json'' \<notin> unwritable w"
    and url: "getenv pf ''PROMETHEUS_PUSHGATEWAY_URL'' = Some url" "url \<noteq> []"
    and load: "load_metrics_from_file ''data/billing_metrics.json'' w = ms" "ms \<noteq> []"
    and p: "p = PrometheusPusher pf url (os_getenv pf ''PROMETHEUS_JOB_NAME'' ''aws-billing-collector'')"
    and inst: "inst = Some (os_getenv pf ''PROMETHEUS_INSTANCE_NAME'' ''github-actions'')"
    and health: "health = (health_request pf p, network pf (http_log w) (health_request pf p))"
    and batch: "batch = (push_request pf p ms inst,
                   network pf (http_log w @ [health]) (push_request pf p ms inst))"
    and fails: "snd batch \<noteq> Response 200"
  shows "\<exists>outs. length outs = length ms \<and>
           http_log (snd (main pf w)) =
             http_log w @ [health, batch] @ zip (map (\<lambda>m. push_request pf p [m] inst) ms) outs \<and>
           fst (main pf w) = (Response 200 \<in> set outs)"
proof -
  define w1 where "w1 = snd (health_check pf p w)"
  define w2 where "w2 = w1\<lparr>http_log := http_log w1 @ [batch]\<rparr>"
  have sess: "session p = network pf"
    by (simp add: p PrometheusPusher_def)
  have w1: "w1 = w\<lparr>http_log := http_log w @ [health]\<rparr>"
    by (simp add: w1_def health_check_world sess health)
  have push: "push_metrics pf p ms inst w1 = (False, w2)"
    using fails by (simp add: push_metrics_nonempty [OF load(2)] sess w1 w2_def batch)
  obtain r w3 where ind: "push_metrics_individually pf p ms inst w2 = (r, w3)"
    by (cases "push_metrics_individually pf p ms inst w2")
  from push_metrics_individually_log [of ms pf p inst w2] obtain outs where
    len: "length outs = length ms"
    and log: "http_log w3 = http_log w2 @ zip (map (\<lambda>m. push_request pf p [m] inst) ms) outs"
    and res: "r = (Response 200 \<in> set outs)"
    and frame: "unwritable w3 = unwritable w2"
    unfolding ind fst_conv snd_conv by blast
  have w3: "http_log w3 = http_log w @ [health, batch] @ zip (map (\<lambda>m. push_request pf p [m] inst) ms) outs"
    "unwritable w3 = unwritable w"
    using log frame by (simp_all add: w2_def w1)
  have "main pf w = (if r then (True, w3\<lparr>push_summary := Some
          \<lparr>s_timestamp = now_isoformat pf, total_metrics = length ms, s_pushgateway_url = url,
           s_job_name = os_getenv pf ''PROMETHEUS_JOB_NAME'' ''aws-billing-collector'',
           s_instance_name = os_getenv pf ''PROMETHEUS_INSTANCE_NAME'' ''github-actions'',
           status = ''success''\<rparr>\<rparr>) else (False, w3))"
    using logs summ url load push ind w3(2)
    by (simp add: main_def Let_def p [symmetric] inst [symmetric] w1_def [symmetric])
  then show ?thesis
    using len w3 res by (intro exI [of _ outs]) auto
qed

theorem main_individual_fallback_witness:
  "\<exists>outs. length outs = length example_metrics \<and>
     http_log (snd (main example_platform example_world)) =
       http_log example_world
         @ [(health_request example_platform example_pusher, Response 200),
            (push_request example_platform example_pusher example_metrics (Some ''github-actions''),
             Response 500)]
         @ zip (map (\<lambda>m. push_request example_platform example_pusher [m] (Some ''github-actions''))
                  example_metrics) outs \<and>
     fst (main example_platform example_world) = (Response 200 \<in> set outs)"
proof (rule main_individual_fallback [where url = "''http://gw:9091/''"])
  show "''logs'' \<notin> unwritable example_world"
    and "''data/push_summary.json'' \<notin> unwritable example_world"
    by (simp_all add: example_world_def world_with_def)
  show "getenv example_platform ''PROMETHEUS_PUSHGATEWAY_URL'' = Some ''http://gw:9091/''"
    and "''http://gw:9091/'' \<noteq> []"
    by (simp_all add: example_platform_def)
  show "load_metrics_from_file ''data/billing_metrics.json'' example_world = example_metrics"
    by (simp add: load_metrics_from_file_def example_world_def world_with_def)
  show "example_metrics \<noteq> []"
    by (simp add: example_metrics_def)
  show "example_pusher = PrometheusPusher example_platform ''http://gw:9091/''
      (os_getenv example_platform ''PROMETHEUS_JOB_NAME'' ''aws-billing-collector'')"
    by (simp add: example_pusher_def os_getenv_def example_platform_def)
  show "Some ''github-actions'' =
      Some (os_getenv example_platform ''PROMETHEUS_INSTANCE_NAME'' ''github-actions'')"
    by (simp add: os_getenv_def example_platform_def)
  show "(health_request example_platform example_pusher, Response 200) =
      (health_request example_platform example_pusher,
       network example_platform (http_log example_world)
         (health_request example_platform example_pusher))"
    by (simp add: health_request_def example_platform_def flaky_network_def)
  show "(push_request example_platform example_pusher example_metrics (Some ''github-actions''),
       Response 500) =
      (push_request example_platform example_pusher example_metrics (Some ''github-actions''),
       network example_platform
         (http_log example_world @ [(health_request example_platform example_pusher, Response 200)])
         (push_request example_platform example_pusher example_metrics (Some ''github-actions'')))"
    by (simp add: push_request_def example_platform_def flaky_network_def example_world_def
        world_with_def)
  show "snd (push_request example_platform example_pusher example_metrics (Some ''github-actions''),
       Response 500) \<noteq> Response 200"
    by simp
qed

text \<open>
  The run of the witness, evaluated: the batch POST gets status 500, the first individual
  POST 200 and the second 500, so the run succeeds and writes its summary.
\<close>

lemma main_example_run:
  "fst (main example_platform example_world) = True \<and>
   map snd (http_log (snd (main example_platform example_world))) =
     [Response 200, Response 500, Response 200, Response 500] \<and>
   push_summary (snd (main example_platform example_world)) =
     Some \<lparr>s_timestamp = ''2024-05-01T12:00:00'', total_metrics = 2,
       s_pushgateway_url = ''http://gw:9091/'', s_job_name = ''aws-billing-collector'',
       s_instance_name = ''github-actions'', status = ''success''\<rparr>"
  by (simp add: main_def example_platform_def example_world_def world_with_def example_metrics_def
      load_metrics_from_file_def os_getenv_def PrometheusPusher_def health_check_def
      health_request_def request_def push_metrics_def push_request_def
      push_metrics_individually_def flaky_network_def Let_def)

text \<open>
  C1, as the code has it. When the snapshot file is missing, holds invalid JSON or cannot
  be read, \<open>load_metrics_from_file\<close> returns the empty sequence, and \<open>main\<close> then
  returns \<^verbatim>\<open>False\<close> (its guard logs "No metrics to push" as an error) and issues no
  request: the world is unchanged.
\<close>

theorem main_empty_snapshot_fails:
  assumes "files w ''data/billing_metrics.json'' = None
         \<or> files w ''data/billing_metrics.json'' = Some InvalidJSON
         \<or> files w ''data/billing_metrics.json'' = Some Unreadable"
  shows "load_metrics_from_file ''data/billing_metrics.json'' w = [] \<and> main pf w = (False, w)"
proof -
  have empty: "load_metrics_from_file ''data/billing_metrics.json'' w = []"
    using assms by (auto simp: load_metrics_from_file_def)
  then have "main pf w = (False, w)"
    by (simp add: main_def Let_def split: option.splits)
  with empty show ?thesis by simp
qed

theorem main_empty_snapshot_fails_witness:
  "load_metrics_from_file ''data/billing_metrics.json'' (world_with Map.empty) = [] \<and>
   main example_platform (world_with Map.empty) = (False, world_with Map.empty)"
  using main_empty_snapshot_fails [of "world_with Map.empty" example_platform]
  by (simp add: world_with_def)

text \<open>
  The claim as the specification states it fails: with the gateway configured and healthy,
  a run on a missing snapshot file, and a run on a file of invalid JSON, read the empty
  sequence and report failure, not success.
\<close>

theorem main_empty_snapshot_counterexample:
  "load_metrics_from_file ''data/billing_metrics.json'' (world_with Map.empty) = [] \<and>
   fst (main example_platform (world_with Map.empty)) = False \<and>
   load_metrics_from_file ''data/billing_metrics.json''
     (world_with [''data/billing_metrics.json'' \<mapsto> InvalidJSON]) = [] \<and>
   fst (main example_platform (world_with [''data/billing_metrics.json'' \<mapsto> InvalidJSON])) = False"
  by (simp add: main_def load_metrics_from_file_def world_with_def example_platform_def Let_def)

subsection \<open>The empty sequence\<close>

text \<open>
  C9. On the empty metric sequence \<open>push_metrics\<close> returns \<^verbatim>\<open>True\<close> and leaves the world
  as it was: no request is added to the log.
\<close>

theorem push_metrics_empty:
  "push_metrics pf p [] inst w = (True, w)"
  by (simp add: push_metrics_def)

text \<open>
  C10. On the empty metric sequence \<open>push_metrics_individually\<close> returns \<^verbatim>\<open>False\<close>, its
  success count being 0, where \<open>push_metrics\<close> returns \<^verbatim>\<open>True\<close>; neither issues a
  request.
\<close>

theorem push_metrics_individually_empty:
  "push_metrics_individually pf p [] inst w = (False, w) \<and> fst (push_metrics pf p [] inst w) = True
   \<and> fst (individual_loop pf p inst 0 [] 0 w) = 0"
  by (simp add: push_metrics_individually_def push_metrics_def)

end
